theory Spec2Isabelle
  imports Main "HOL-Library.Word"
begin

unbundle bit_operations_syntax

section \<open>Wire constants and packet types\<close>

text \<open>
  A Go \<open>[]byte\<close> is a list of bytes, and a Go \<open>string\<close> is an immutable byte sequence, so
  both are byte lists. \<open>str\<close> writes an ASCII literal of the source as its bytes.
\<close>

type_synonym byte = "8 word"
type_synonym gostring = "byte list"

definition str :: "string \<Rightarrow> gostring" where
  "str s = map of_char s"

definition DatagramSize :: nat where
  "DatagramSize = 516"

definition BlockSize :: nat where
  "BlockSize = DatagramSize - 4"

type_synonym OperationCode = "16 word"

definition OpRRQ :: OperationCode where "OpRRQ = 1"
definition OpWRQ :: OperationCode where "OpWRQ = 2"
definition OpData :: OperationCode where "OpData = 3"
definition OpAck :: OperationCode where "OpAck = 4"
definition OpErr :: OperationCode where "OpErr = 5"

type_synonym ErrCode = "16 word"

definition ErrUnknown :: ErrCode where "ErrUnknown = 0"
definition ErrNotFound :: ErrCode where "ErrNotFound = 1"
definition ErrAccessViolation :: ErrCode where "ErrAccessViolation = 2"
definition ErrDiskFull :: ErrCode where "ErrDiskFull = 3"
definition ErrIllegalOp :: ErrCode where "ErrIllegalOp = 4"
definition ErrUnknownID :: ErrCode where "ErrUnknownID = 5"
definition ErrFileExists :: ErrCode where "ErrFileExists = 6"
definition ErrNoUser :: ErrCode where "ErrNoUser = 7"

text \<open>
  The Go \<open>error\<close> values the package can return, one constructor per message. The two
  wrapping messages of the read-request decoder carry the wrapped error; the second one
  wraps an error that can be \<open>nil\<close>.
\<close>

datatype error =
    EOF
  | ErrUnexpectedEOF
  | InvalidWRQ OperationCode
  | OctetModeOnly
  | InvalidRRQ OperationCode
  | RRQFilename error
  | RRQMode "error option"
  | BinaryOnly
  | InvalidDATA
  | InvalidOperation
  | InvalidError
  | NilConnection
  | PayloadRequired
  | ListenerFailed

record WriteReq =
  WRQ_Filename :: gostring
  WRQ_Mode :: gostring

record ReadReq =
  RRQ_Filename :: gostring
  RRQ_Mode :: gostring

text \<open>
  \<open>Data.Payload\<close> is an \<open>io.Reader\<close>; the field holds the bytes the reader has not yet
  handed out, and reading consumes them from the front.
\<close>

record Data =
  Data_Block :: "16 word"
  Data_Payload :: "byte list"

record Ack =
  Ack_Block :: "16 word"

record Err =
  Err_Error :: ErrCode
  Err_Message :: gostring

section \<open>Library functions the codec calls\<close>

text \<open>Big-endian 16-bit values, as \<open>binary.BigEndian\<close> writes and reads them.\<close>

definition put_u16 :: "16 word \<Rightarrow> byte list" where
  "put_u16 w = [ucast (drop_bit 8 w), ucast w]"

definition get_u16 :: "byte \<Rightarrow> byte \<Rightarrow> 16 word" where
  "get_u16 hi lo = push_bit 8 (ucast hi) OR ucast lo"

text \<open>
  \<open>binary.Read(r, binary.BigEndian, &v)\<close> for a 16-bit \<open>v\<close>: \<open>io.ReadFull\<close> of two bytes
  from the reader. The result comes with what is left in the reader.
\<close>

fun binary_Read :: "byte list \<Rightarrow> (error + 16 word) \<times> byte list" where
  "binary_Read [] = (Inl EOF, [])"
| "binary_Read [b] = (Inl ErrUnexpectedEOF, [])"
| "binary_Read (hi # lo # r) = (Inr (get_u16 hi lo), r)"

text \<open>
  \<open>(*bytes.Buffer).ReadString(delim)\<close>: the bytes up to and including the first
  \<open>delim\<close>; without a \<open>delim\<close>, everything that is left and \<open>io.EOF\<close>.
\<close>

definition ReadString :: "byte list \<Rightarrow> byte \<Rightarrow> (gostring \<times> error option) \<times> byte list" where
  "ReadString b delim =
     (case dropWhile (\<lambda>c. c \<noteq> delim) b of
        [] \<Rightarrow> ((b, Some EOF), [])
      | d # r \<Rightarrow> ((takeWhile (\<lambda>c. c \<noteq> delim) b @ [d], None), r))"

text \<open>\<open>strings.TrimRight(s, cutset)\<close> for a cutset of ASCII bytes.\<close>

definition TrimRight :: "gostring \<Rightarrow> gostring \<Rightarrow> gostring" where
  "TrimRight s cutset = rev (dropWhile (\<lambda>c. c \<in> set cutset) (rev s))"

text \<open>
  \<open>strings.ToLower\<close> on ASCII: the letters A to Z move to a to z and every other byte
  stays. (On a string with a byte above 127 Go maps Unicode runes instead; no rune
  outside ASCII has one of the letters of \<open>octet\<close> as its lower case, so the comparison
  with \<open>octet\<close> below has the same outcome.)
\<close>

definition lower_byte :: "byte \<Rightarrow> byte" where
  "lower_byte c = (if 0x41 \<le> c \<and> c \<le> 0x5A then c + 0x20 else c)"

definition ToLower :: "gostring \<Rightarrow> gostring" where
  "ToLower s = map lower_byte s"

section \<open>The packet codec\<close>

text \<open>
  A decoder is a method on a pointer: it takes the receiver and returns the error
  (\<open>None\<close> for \<open>nil\<close>) with the receiver as the call leaves it, fields assigned before a
  failure included.
\<close>

definition WriteReq_UnmarshalBinary :: "WriteReq \<Rightarrow> byte list \<Rightarrow> error option \<times> WriteReq" where
  "WriteReq_UnmarshalBinary w p =
     (case binary_Read p of
        (Inl err, b) \<Rightarrow> (Some err, w)
      | (Inr code, b) \<Rightarrow>
          if code \<noteq> OpWRQ then (Some (InvalidWRQ code), w)
          else
            let ((name, err), b) = ReadString b 0;
                w = w\<lparr>WRQ_Filename := TrimRight name [0]\<rparr>;
                ((mode, err), b) = ReadString b 0;
                w = w\<lparr>WRQ_Mode := TrimRight mode [0]\<rparr>
            in if WRQ_Mode w \<noteq> str ''octet'' then (Some OctetModeOnly, w)
               else (None, w))"

text \<open>
  The encoders write into a fresh \<open>bytes.Buffer\<close>, whose writes return a \<open>nil\<close> error, so
  the early returns after each write are never taken and every encoder returns its bytes.
\<close>

definition ReadReq_MarshalBinary :: "ReadReq \<Rightarrow> error + byte list" where
  "ReadReq_MarshalBinary q =
     (let mode = (if RRQ_Mode q \<noteq> [] then RRQ_Mode q else str ''octet'')
      in Inr (put_u16 OpRRQ @ RRQ_Filename q @ [0] @ mode @ [0]))"

definition ReadReq_UnmarshalBinary :: "ReadReq \<Rightarrow> byte list \<Rightarrow> error option \<times> ReadReq" where
  "ReadReq_UnmarshalBinary q p =
     (case binary_Read p of
        (Inl err, r) \<Rightarrow> (Some err, q)
      | (Inr code, r) \<Rightarrow>
          if code \<noteq> OpRRQ then (Some (InvalidRRQ code), q)
          else
            (case ReadString r 0 of
               ((name, Some err), r) \<Rightarrow> (Some (RRQFilename err), q\<lparr>RRQ_Filename := name\<rparr>)
             | ((name, None), r) \<Rightarrow>
                 let q = q\<lparr>RRQ_Filename := TrimRight name [0]\<rparr>
                 in (case ReadString r 0 of
                       ((mode, Some err), r) \<Rightarrow> (Some (RRQMode (Some err)), q\<lparr>RRQ_Mode := mode\<rparr>)
                     | ((mode, None), r) \<Rightarrow>
                         let q = q\<lparr>RRQ_Mode := TrimRight mode [0]\<rparr>
                         in if length (RRQ_Mode q) = 0 then (Some (RRQMode None), q)
                            else if ToLower (RRQ_Mode q) \<noteq> str ''octet'' then (Some BinaryOnly, q)
                            else (None, q))))"

text \<open>
  \<open>Data.MarshalBinary\<close> has a pointer receiver: it increments the block number before
  writing it, and \<open>io.CopyN\<close> takes up to \<open>BlockSize\<close> bytes out of the payload reader
  (its \<open>io.EOF\<close> on a short read is not an error here).
\<close>

definition Data_MarshalBinary :: "Data \<Rightarrow> (error + byte list) \<times> Data" where
  "Data_MarshalBinary d =
     (let d = d\<lparr>Data_Block := Data_Block d + 1\<rparr>;
          b = put_u16 OpData @ put_u16 (Data_Block d) @ take BlockSize (Data_Payload d)
      in (Inr b, d\<lparr>Data_Payload := drop BlockSize (Data_Payload d)\<rparr>))"

definition Data_UnmarshalBinary :: "Data \<Rightarrow> byte list \<Rightarrow> error option \<times> Data" where
  "Data_UnmarshalBinary d p =
     (if length p < 4 \<or> length p > DatagramSize then (Some InvalidDATA, d)
      else
        (case binary_Read (take 2 p) of
           (Inl err, r) \<Rightarrow> (Some InvalidDATA, d)
         | (Inr opcode, r) \<Rightarrow>
             if opcode \<noteq> OpData then (Some InvalidDATA, d)
             else
               (case binary_Read (take 2 (drop 2 p)) of
                  (Inl err, r) \<Rightarrow> (Some InvalidDATA, d)
                | (Inr block, r) \<Rightarrow>
                    (None, d\<lparr>Data_Block := block, Data_Payload := drop 4 p\<rparr>))))"

definition Ack_MarshalBinary :: "Ack \<Rightarrow> error + byte list" where
  "Ack_MarshalBinary a = Inr (put_u16 OpAck @ put_u16 (Ack_Block a))"

definition Ack_UnmarshalBinary :: "Ack \<Rightarrow> byte list \<Rightarrow> error option \<times> Ack" where
  "Ack_UnmarshalBinary a p =
     (case binary_Read p of
        (Inl err, r) \<Rightarrow> (Some err, a)
      | (Inr code, r) \<Rightarrow>
          if code \<noteq> OpAck then (Some InvalidOperation, a)
          else
            (case binary_Read r of
               (Inl err, r) \<Rightarrow> (Some err, a)
             | (Inr block, r) \<Rightarrow> (None, a\<lparr>Ack_Block := block\<rparr>)))"

definition Err_MarshalBinary :: "Err \<Rightarrow> error + byte list" where
  "Err_MarshalBinary e =
     Inr (put_u16 OpErr @ put_u16 (Err_Error e) @ Err_Message e @ [0])"

definition Err_UnmarshalBinary :: "Err \<Rightarrow> byte list \<Rightarrow> error option \<times> Err" where
  "Err_UnmarshalBinary e p =
     (case binary_Read p of
        (Inl err, r) \<Rightarrow> (Some err, e)
      | (Inr opcode, r) \<Rightarrow>
          if opcode \<noteq> OpErr then (Some InvalidError, e)
          else
            (case binary_Read r of
               (Inl err, r) \<Rightarrow> (Some err, e)
             | (Inr code, r) \<Rightarrow>
                 let e = e\<lparr>Err_Error := code\<rparr>;
                     ((msg, err), r) = ReadString r 0
                 in (err, e\<lparr>Err_Message := TrimRight msg [0]\<rparr>)))"

section \<open>The server\<close>

text \<open>
  \<open>Payload\<close> is a slice that \<open>Serve\<close> compares with \<open>nil\<close>, so it is optional here;
  \<open>Retries\<close> is a \<open>uint8\<close> and \<open>Timeout\<close> a \<open>time.Duration\<close> (64 bits, nanoseconds).
\<close>

record TFTPServer =
  WriteAllowed :: bool
  WriteDir :: gostring
  Payload :: "byte list option"
  Retries :: "8 word"
  Timeout :: "64 word"

definition payload_bytes :: "byte list option \<Rightarrow> byte list" where
  "payload_bytes p = (case p of None \<Rightarrow> [] | Some b \<Rightarrow> b)"

text \<open>
  The variables both session handlers declare before their loops. They live across the
  iterations, the receive buffer with whatever earlier datagrams left in it.
\<close>

record session =
  ackPkt :: Ack
  errPkt :: Err
  dataPkt :: Data
  buf :: "byte list"

text \<open>
  \<open>conn.Read(buf)\<close> on a datagram socket copies the datagram into the front of the buffer,
  cut to the buffer's length, and returns the number of bytes copied; the rest of the
  buffer keeps its contents.
\<close>

definition conn_Read :: "byte list \<Rightarrow> byte list \<Rightarrow> nat \<times> byte list" where
  "conn_Read b d = (let n = min (length d) (length b) in (n, take n d @ drop n b))"

text \<open>
  What a session does that can be seen from outside: a datagram sent on its own
  connection, the destination file created (\<open>os.Create\<close>: opened read-write, created if
  missing, truncated if present), bytes written to that file.
\<close>

datatype effect =
    Sent "byte list"
  | Created gostring
  | Wrote "byte list"

text \<open>How a session ends; each constructor is one \<open>return\<close> (or the panic) of a handler.\<close>

datatype outcome =
    DialFailed
  | MarshalFailed error
  | WriteFailed
  | ReadFailed
  | ReceivedError gostring
  | ExhaustedRetries
  | SentBlocks "16 word"
  | CreateFailed
  | BadData error
  | SliceBoundsPanic
  | FileWriteFailed
  | ReceivedBlocks "16 word"
  | AwaitingData

definition prepend :: "'a list \<Rightarrow> 'a list \<times> 'b \<Rightarrow> 'a list \<times> 'b" where
  "prepend xs r = (xs @ fst r, snd r)"

subsection \<open>Download\<close>

text \<open>
  One pass of the \<open>RETRY\<close> loop writes the data packet and then reads with a deadline.
  The network's part in one pass is one \<open>net_io\<close>: the write fails, or it succeeds and the
  read runs into the deadline, fails otherwise, or delivers a datagram. When the list is
  used up nothing arrives any more: every later write succeeds and every later read runs
  into the deadline.
\<close>

datatype net_io =
    WriteFails
  | ReadTimeout
  | ReadFails
  | Datagram "byte list"

datatype retry_result =
    Next session "net_io list"
  | Return outcome

text \<open>
  The \<open>RETRY\<close> loop with \<open>i\<close> passes left. \<open>Next\<close> is \<open>continue NEXTPACKET\<close>; running out
  of passes leaves the loop for the "exhausted retries" return.
\<close>

fun retry :: "byte list \<Rightarrow> nat \<Rightarrow> session \<Rightarrow> net_io list \<Rightarrow> effect list \<times> retry_result" where
  "retry data 0 st ios = ([], Return ExhaustedRetries)"
| "retry data (Suc i) st [] = prepend [Sent data] (retry data i st [])"
| "retry data (Suc i) st (WriteFails # ios) = ([], Return WriteFailed)"
| "retry data (Suc i) st (ReadTimeout # ios) = prepend [Sent data] (retry data i st ios)"
| "retry data (Suc i) st (ReadFails # ios) = ([Sent data], Return ReadFailed)"
| "retry data (Suc i) st (Datagram d # ios) =
     (let st = st\<lparr>buf := snd (conn_Read (buf st) d)\<rparr>
      in case Ack_UnmarshalBinary (ackPkt st) (buf st) of
           (None, a) \<Rightarrow>
             let st = st\<lparr>ackPkt := a\<rparr>
             in if Ack_Block (ackPkt st) = Data_Block (dataPkt st)
                then ([Sent data], Next st ios)
                else prepend [Sent data] (retry data i st ios)
         | (Some err, a) \<Rightarrow>
             let st = st\<lparr>ackPkt := a\<rparr>
             in (case Err_UnmarshalBinary (errPkt st) (buf st) of
                   (None, e) \<Rightarrow> ([Sent data], Return (ReceivedError (Err_Message e)))
                 | (Some err, e) \<Rightarrow>
                     prepend [Sent data] (retry data i (st\<lparr>errPkt := e\<rparr>) ios)))"

lemma retry_Next_dataPkt:
  "snd (retry data i st ios) = Next st' ios' \<Longrightarrow> dataPkt st' = dataPkt st"
proof (induction data i st ios rule: retry.induct)
  case (6 data i st d ios)
  define st1 where "st1 = st\<lparr>buf := snd (conn_Read (buf st) d)\<rparr>"
  show ?case
  proof (cases "Ack_UnmarshalBinary (ackPkt st1) (buf st1)")
    case (Pair r a)
    show ?thesis
    proof (cases r)
      case None
      with Pair 6(1) [of st1 r a "st1\<lparr>ackPkt := a\<rparr>"] 6(3) show ?thesis
        by (auto simp: st1_def Let_def prepend_def split: if_splits)
    next
      case (Some err)
      obtain r' e where e: "Err_UnmarshalBinary (errPkt st1) (buf st1) = (r', e)"
        by (cases "Err_UnmarshalBinary (errPkt st1) (buf st1)")
      show ?thesis
      proof (cases r')
        case None
        with Pair Some e 6(3) show ?thesis
          by (simp add: st1_def Let_def)
      next
        case (Some err')
        with Pair \<open>r = Some err\<close> e 6(3)
          6(2) [of st1 r a err "st1\<lparr>ackPkt := a\<rparr>" r' e err'] show ?thesis
          by (simp add: st1_def Let_def prepend_def)
      qed
    qed
  qed
qed (simp_all add: prepend_def)

text \<open>
  The \<open>NEXTPACKET\<close> loop: \<open>n\<close> is the loop variable, \<open>DatagramSize\<close> at first and then the
  byte count of the last successful \<open>conn.Write\<close>, which is the length of the packet.
\<close>

function send_loop :: "TFTPServer \<Rightarrow> nat \<Rightarrow> session \<Rightarrow> net_io list \<Rightarrow> effect list \<times> outcome" where
  "send_loop s n st ios =
     (if n = DatagramSize then
        (case Data_MarshalBinary (dataPkt st) of
           (Inl err, d) \<Rightarrow> ([], MarshalFailed err)
         | (Inr data, d) \<Rightarrow>
             (case retry data (unat (Retries s)) (st\<lparr>dataPkt := d\<rparr>) ios of
                (tr, Return out) \<Rightarrow> (tr, out)
              | (tr, Next st' ios') \<Rightarrow> prepend tr (send_loop s (length data) st' ios')))
      else ([], SentBlocks (Data_Block (dataPkt st))))"
  by pat_completeness auto
termination
proof (relation "measure (\<lambda>(s, n, st, ios).
         if n = DatagramSize then Suc (length (Data_Payload (dataPkt st))) else 0)", goal_cases)
  case 1
  show ?case by simp
next
  case (2 s n st ios x y data tr r st' ios')
  have "snd (retry data (unat (Retries s)) (st\<lparr>dataPkt := y\<rparr>) ios) = Next st' ios'"
    using 2(4) [symmetric] 2(5) by simp
  then have d: "dataPkt st' = y"
    by (rule retry_Next_dataPkt [THEN trans]) simp
  have m: "Data_MarshalBinary (dataPkt st) = (Inr data, y)"
    using 2(2) [symmetric] 2(3) by simp
  have y: "Data_Payload y = drop 512 (Data_Payload (dataPkt st))"
    and data: "length data = 4 + min 512 (length (Data_Payload (dataPkt st)))"
    using m by (auto simp: Data_MarshalBinary_def Let_def put_u16_def BlockSize_def DatagramSize_def)
  show ?case
    using 2(1) d y data
    by (auto simp: DatagramSize_def min_def split: if_splits)
qed

definition handleRead ::
  "TFTPServer \<Rightarrow> string \<Rightarrow> ReadReq \<Rightarrow> bool \<Rightarrow> net_io list \<Rightarrow> effect list \<times> outcome" where
  "handleRead s clientAddr rrq dial_ok ios =
     (if \<not> dial_ok then ([], DialFailed)
      else
        let st = \<lparr>ackPkt = \<lparr>Ack_Block = 0\<rparr>,
                  errPkt = \<lparr>Err_Error = 0, Err_Message = []\<rparr>,
                  dataPkt = \<lparr>Data_Block = 0, Data_Payload = payload_bytes (Payload s)\<rparr>,
                  buf = replicate DatagramSize 0\<rparr>
        in send_loop s DatagramSize st ios)"

text \<open>The bytes of an encoder's result where the caller drops the error.\<close>

definition marshalled :: "error + byte list \<Rightarrow> byte list" where
  "marshalled r = (case r of Inl err \<Rightarrow> [] | Inr b \<Rightarrow> b)"


text \<open>
  The network of a transfer in which every block is acknowledged at once: \<open>ack_of b\<close> is a
  pass in which the client's Ack for block \<open>b\<close> arrives, and \<open>all_acked b m\<close> are \<open>m\<close> such
  passes for the blocks after \<open>b\<close>.
\<close>

definition ack_of :: "16 word \<Rightarrow> net_io" where
  "ack_of b = Datagram (marshalled (Ack_MarshalBinary \<lparr>Ack_Block = b\<rparr>))"

definition all_acked :: "16 word \<Rightarrow> nat \<Rightarrow> net_io list" where
  "all_acked b m = map (\<lambda>k. ack_of (b + 1 + of_nat k)) [0..<m]"

subsection \<open>Upload\<close>

text \<open>
  One pass of the receive loop blocks in \<open>conn.Read\<close> (no deadline is set). The outside
  world's part in one pass is one \<open>upload_io\<close>: the read fails, or it delivers a
  datagram, with the answers to the file write and to the write of the Ack that follow
  it (\<open>True\<close> for success). When the list is used up no datagram arrives any more and the
  session stays blocked in the read.
\<close>

datatype upload_io =
    RecvFails
  | Recv "byte list" bool bool

text \<open>
  \<open>data[:hi]\<close>: a bound below zero panics, and so does a bound above what the slice
  holds. (The handler slices the 512 bytes read out of the payload at \<open>n - 4\<close>, which is
  at most 512.)
\<close>

definition slice_to :: "byte list \<Rightarrow> int \<Rightarrow> byte list option" where
  "slice_to data hi = (if hi < 0 \<or> int (length data) < hi then None else Some (take (nat hi) data))"

fun recv_loop :: "nat \<Rightarrow> session \<Rightarrow> upload_io list \<Rightarrow> effect list \<times> outcome" where
  "recv_loop n st ios =
     (if n \<noteq> DatagramSize then ([], ReceivedBlocks (Ack_Block (ackPkt st)))
      else
        (case ios of
           [] \<Rightarrow> ([], AwaitingData)
         | RecvFails # ios' \<Rightarrow> ([], ReadFailed)
         | Recv d file_ok send_ok # ios' \<Rightarrow>
             (case conn_Read (buf st) d of
                (n, b) \<Rightarrow>
                  let st = st\<lparr>buf := b\<rparr>
                  in (case Err_UnmarshalBinary (errPkt st) (buf st) of
                        (None, e) \<Rightarrow> ([], ReceivedError (Err_Message e))
                      | (Some err, e) \<Rightarrow>
                          let st = st\<lparr>errPkt := e\<rparr>
                          in (case Data_UnmarshalBinary (dataPkt st) (buf st) of
                                (Some err, dp) \<Rightarrow> ([], BadData err)
                              | (None, dp) \<Rightarrow>
                                  let data = Data_Payload dp;
                                      st = st\<lparr>dataPkt := dp\<lparr>Data_Payload := []\<rparr>\<rparr>
                                  in (case slice_to data (int n - 4) of
                                        None \<Rightarrow> ([], SliceBoundsPanic)
                                      | Some chunk \<Rightarrow>
                                          if \<not> file_ok then ([], FileWriteFailed)
                                          else
                                            let st = st\<lparr>ackPkt := (ackPkt st)\<lparr>Ack_Block := Data_Block (dataPkt st)\<rparr>\<rparr>
                                            in (case Ack_MarshalBinary (ackPkt st) of
                                                  Inl err \<Rightarrow> ([Wrote chunk], MarshalFailed err)
                                                | Inr data \<Rightarrow>
                                                    if \<not> send_ok then ([Wrote chunk], WriteFailed)
                                                    else prepend [Wrote chunk, Sent data]
                                                           (recv_loop n st ios'))))))))"

declare recv_loop.simps [simp del]

text \<open>
  The rest of what the upload handler meets outside: whether the dial, the write of the
  first Ack and the creation of the file succeed, and then the passes of the loop.
\<close>

record upload_env =
  dial_ok :: bool
  ack_ok :: bool
  create_ok :: bool
  arrivals :: "upload_io list"

definition handleWrite ::
  "TFTPServer \<Rightarrow> string \<Rightarrow> WriteReq \<Rightarrow> upload_env \<Rightarrow> effect list \<times> outcome" where
  "handleWrite s clientAddr wrq env =
     (if \<not> dial_ok env then ([], DialFailed)
      else
        let st = \<lparr>ackPkt = \<lparr>Ack_Block = 0\<rparr>,
                  errPkt = \<lparr>Err_Error = 0, Err_Message = []\<rparr>,
                  dataPkt = \<lparr>Data_Block = 0, Data_Payload = []\<rparr>,
                  buf = replicate DatagramSize 0\<rparr>
        in (case Ack_MarshalBinary (ackPkt st) of
              Inl err \<Rightarrow> ([], MarshalFailed err)
            | Inr data \<Rightarrow>
                if \<not> ack_ok env then ([], WriteFailed)
                else if \<not> create_ok env then ([Sent data], CreateFailed)
                else prepend [Sent data, Created (WRQ_Filename wrq)]
                       (recv_loop DatagramSize st (arrivals env))))"

subsection \<open>The dispatcher\<close>

text \<open>
  What the listening loop meets in one pass: \<open>conn.ReadFrom\<close> fails, or a datagram
  arrives from an address. What it does: a datagram written to an address on the
  listening socket, a session started as a goroutine (with the server value, the
  address and the request it is given), a log line for a bad request. When the list is
  used up the loop stays blocked in \<open>ReadFrom\<close> and \<open>Serve\<close> has not returned (\<open>None\<close>).
\<close>

datatype listen_io =
    ReadFromFails
  | Arrives string "byte list"

datatype action =
    WriteTo "byte list" string
  | GoHandleRead TFTPServer string ReadReq
  | GoHandleWrite TFTPServer string WriteReq
  | LogBadRequest string error

fun serve_loop ::
  "TFTPServer \<Rightarrow> ReadReq \<Rightarrow> WriteReq \<Rightarrow> listen_io list \<Rightarrow> action list \<times> error option" where
  "serve_loop s rrq wrq [] = ([], None)"
| "serve_loop s rrq wrq (ReadFromFails # ios) = ([], Some ListenerFailed)"
| "serve_loop s rrq wrq (Arrives addr d # ios) =
     (let buf = snd (conn_Read (replicate DatagramSize 0) d)
      in case ReadReq_UnmarshalBinary rrq buf of
           (None, rrq) \<Rightarrow> prepend [GoHandleRead s addr rrq] (serve_loop s rrq wrq ios)
         | (Some err, rrq) \<Rightarrow>
             (case WriteReq_UnmarshalBinary wrq buf of
                (None, wrq) \<Rightarrow>
                  prepend
                    ((if WriteAllowed s = False
                      then [WriteTo (marshalled (Err_MarshalBinary
                              \<lparr>Err_Error = ErrIllegalOp,
                               Err_Message = str ''We don't accept write requests''\<rparr>)) addr]
                      else []) @ [GoHandleWrite s addr wrq])
                    (serve_loop s rrq wrq ios)
              | (Some err, wrq) \<Rightarrow>
                  prepend [LogBadRequest addr err] (serve_loop s rrq wrq ios)))"

text \<open>The connection is the list of what will arrive on it; \<open>None\<close> is the \<open>nil\<close> connection.\<close>

definition Serve :: "TFTPServer \<Rightarrow> listen_io list option \<Rightarrow> action list \<times> error option" where
  "Serve s conn =
     (case conn of
        None \<Rightarrow> ([], Some NilConnection)
      | Some ios \<Rightarrow>
          if Payload s = None then ([], Some PayloadRequired)
          else
            let s = (if Retries s = 0 then s\<lparr>Retries := 10\<rparr> else s);
                s = (if Timeout s = 0 then s\<lparr>Timeout := 4 * 1000000000\<rparr> else s)
            in serve_loop s \<lparr>RRQ_Filename = [], RRQ_Mode = []\<rparr>
                 \<lparr>WRQ_Filename = [], WRQ_Mode = []\<rparr> ios)"

section \<open>Properties of the codec\<close>

lemma get_put_u16: "get_u16 (ucast (drop_bit 8 w)) (ucast w) = w"
  unfolding get_u16_def by (rule bit_word_eqI) (auto simp: bit_simps)

lemma put_get_u16: "put_u16 (get_u16 a b) = [a, b]"
proof -
  have "ucast (drop_bit 8 (get_u16 a b)) = a"
    unfolding get_u16_def by (rule bit_word_eqI) (auto simp: bit_simps dest: bit_imp_le_length)
  moreover have "ucast (get_u16 a b) = b"
    unfolding get_u16_def by (rule bit_word_eqI) (auto simp: bit_simps dest: bit_imp_le_length)
  ultimately show ?thesis by (simp add: put_u16_def)
qed

lemma get_u16_eq_iff: "get_u16 a b = w \<longleftrightarrow> [a, b] = put_u16 w"
proof
  assume "get_u16 a b = w"
  then show "[a, b] = put_u16 w" using put_get_u16 [of a b] by simp
next
  assume "[a, b] = put_u16 w"
  then show "get_u16 a b = w" using get_put_u16 [of w] by (simp add: put_u16_def)
qed

lemma binary_Read_put_u16: "binary_Read (put_u16 w @ r) = (Inr w, r)"
  by (simp add: put_u16_def get_put_u16)

lemma ReadString_terminated:
  assumes "c \<notin> set s"
  shows "ReadString (s @ c # r) c = ((s @ [c], None), r)"
proof -
  have p: "\<And>x. x \<in> set s \<Longrightarrow> x \<noteq> c" using assms by auto
  have "dropWhile (\<lambda>x. x \<noteq> c) (s @ c # r) = c # r"
    using p by (simp add: dropWhile_append2)
  moreover have "takeWhile (\<lambda>x. x \<noteq> c) (s @ c # r) = s"
    using p by (simp add: takeWhile_append2)
  ultimately show ?thesis by (simp add: ReadString_def)
qed

lemma TrimRight_clean:
  assumes "0 \<notin> set s"
  shows "TrimRight s [0] = s"
proof (cases s rule: rev_cases)
  case Nil
  then show ?thesis by (simp add: TrimRight_def)
next
  case (snoc ys y)
  with assms show ?thesis by (simp add: TrimRight_def)
qed

lemma TrimRight_terminated: "0 \<notin> set s \<Longrightarrow> TrimRight (s @ [0]) [0] = s"
  using TrimRight_clean [of s] by (simp add: TrimRight_def)


lemma ToLower_octet_clean:
  assumes "ToLower m = str ''octet''"
  shows "0 \<notin> set m" and "m \<noteq> []"
proof -
  show "m \<noteq> []" using assms by (auto simp: ToLower_def str_def)
  show "0 \<notin> set m"
  proof
    assume "0 \<in> set m"
    then have "lower_byte 0 \<in> set (ToLower m)" by (simp add: ToLower_def)
    then show False using assms by (simp add: lower_byte_def str_def)
  qed
qed

lemma ReadReq_round_trip:
  assumes n: "0 \<notin> set name" and m: "ToLower mode = str ''octet''"
  shows "ReadReq_UnmarshalBinary q (put_u16 OpRRQ @ name @ [0] @ mode @ [0]) =
           (None, \<lparr>RRQ_Filename = name, RRQ_Mode = mode\<rparr>)"
proof -
  note c = ToLower_octet_clean [OF m]
  have 1: "ReadString (name @ 0 # mode @ [0]) 0 = ((name @ [0], None), mode @ [0])"
    using ReadString_terminated [OF n, of "mode @ [0]"] by simp
  have 2: "ReadString (mode @ [0]) 0 = ((mode @ [0], None), [])"
    using ReadString_terminated [OF c(1), of "[]"] by simp
  show ?thesis
    using c(2) m
    by (simp add: ReadReq_UnmarshalBinary_def binary_Read_put_u16 1 2
        TrimRight_terminated [OF n] TrimRight_terminated [OF c(1)])
qed

lemma WriteReq_layout:
  assumes n: "0 \<notin> set name"
  shows "WriteReq_UnmarshalBinary w (put_u16 OpWRQ @ name @ [0] @ str ''octet'' @ [0]) =
           (None, \<lparr>WRQ_Filename = name, WRQ_Mode = str ''octet''\<rparr>)"
proof -
  have c: "0 \<notin> set (str ''octet'')" by (simp add: str_def)
  have 1: "ReadString (name @ 0 # str ''octet'' @ [0]) 0 = ((name @ [0], None), str ''octet'' @ [0])"
    using ReadString_terminated [OF n, of "str ''octet'' @ [0]"] by simp
  have 2: "ReadString (str ''octet'' @ [0]) 0 = ((str ''octet'' @ [0], None), [])"
    using ReadString_terminated [OF c, of "[]"] by simp
  show ?thesis
    by (simp add: WriteReq_UnmarshalBinary_def binary_Read_put_u16 1 2
        TrimRight_terminated [OF n] TrimRight_terminated [OF c])
qed

lemma Ack_round_trip:
  "Ack_UnmarshalBinary a0 (put_u16 OpAck @ put_u16 (Ack_Block a) @ r) = (None, a0\<lparr>Ack_Block := Ack_Block a\<rparr>)"
  by (simp add: Ack_UnmarshalBinary_def binary_Read_put_u16)

lemma Err_round_trip:
  assumes n: "0 \<notin> set (Err_Message e)"
  shows "Err_UnmarshalBinary e0 (put_u16 OpErr @ put_u16 (Err_Error e) @ Err_Message e @ [0]) = (None, e)"
proof -
  have 1: "ReadString (Err_Message e @ [0]) 0 = ((Err_Message e @ [0], None), [])"
    using ReadString_terminated [OF n, of "[]"] by simp
  show ?thesis
    by (simp add: Err_UnmarshalBinary_def binary_Read_put_u16 1 TrimRight_terminated [OF n])
qed

lemma Data_round_trip:
  "Data_UnmarshalBinary d0 (put_u16 OpData @ put_u16 b @ pl) =
     (if 512 < length pl then (Some InvalidDATA, d0) else (None, \<lparr>Data_Block = b, Data_Payload = pl\<rparr>))"
  unfolding Data_UnmarshalBinary_def
  using binary_Read_put_u16 [of OpData "[]"] binary_Read_put_u16 [of b "[]"]
  by (simp add: put_u16_def DatagramSize_def)

lemma Data_UnmarshalBinary_header:
  assumes "length r \<le> 512"
  shows "Data_UnmarshalBinary d (a # b # c # e # r) =
     (if [a, b] = put_u16 OpData
      then (None, \<lparr>Data_Block = get_u16 c e, Data_Payload = r\<rparr>)
      else (Some InvalidDATA, d))"
  using assms binary_Read_put_u16 [of OpData "[]"]
  by (simp add: Data_UnmarshalBinary_def DatagramSize_def get_u16_eq_iff)

text \<open>
  Claim C1, as the code has it. Decoding what the encoder wrote gives the packet back
  for a read request whose file name has no NUL byte and whose mode is \<open>octet\<close> in any
  letter case (the empty file name included), for every Ack, and for every Error whose
  message has no NUL byte (the empty message included). \<open>Data.MarshalBinary\<close> increments
  the block number before it writes it and takes at most 512 bytes from the payload
  reader, so decoding its bytes gives the block number plus one (modulo \<open>2^16\<close>) and those
  payload bytes, the empty payload included. The write request has no encoder; bytes in
  its wire layout (opcode 2, file name, NUL, \<open>octet\<close>, NUL) decode to the request.
\<close>

theorem codec_round_trip:
  "(0 \<notin> set name \<and> ToLower mode = str ''octet'' \<longrightarrow>
      ReadReq_MarshalBinary \<lparr>RRQ_Filename = name, RRQ_Mode = mode\<rparr> =
        Inr (put_u16 OpRRQ @ name @ [0] @ mode @ [0]) \<and>
      ReadReq_UnmarshalBinary q0 (put_u16 OpRRQ @ name @ [0] @ mode @ [0]) =
        (None, \<lparr>RRQ_Filename = name, RRQ_Mode = mode\<rparr>)) \<and>
   (Ack_MarshalBinary a = Inr (put_u16 OpAck @ put_u16 (Ack_Block a)) \<and>
    Ack_UnmarshalBinary a0 (put_u16 OpAck @ put_u16 (Ack_Block a)) = (None, a)) \<and>
   (0 \<notin> set (Err_Message e) \<longrightarrow>
      Err_MarshalBinary e = Inr (put_u16 OpErr @ put_u16 (Err_Error e) @ Err_Message e @ [0]) \<and>
      Err_UnmarshalBinary e0 (put_u16 OpErr @ put_u16 (Err_Error e) @ Err_Message e @ [0]) =
        (None, e)) \<and>
   (Data_MarshalBinary d =
      (Inr (put_u16 OpData @ put_u16 (Data_Block d + 1) @ take 512 (Data_Payload d)),
       \<lparr>Data_Block = Data_Block d + 1, Data_Payload = drop 512 (Data_Payload d)\<rparr>) \<and>
    Data_UnmarshalBinary d0
        (put_u16 OpData @ put_u16 (Data_Block d + 1) @ take 512 (Data_Payload d)) =
      (None, \<lparr>Data_Block = Data_Block d + 1, Data_Payload = take 512 (Data_Payload d)\<rparr>)) \<and>
   (0 \<notin> set name \<longrightarrow>
      WriteReq_UnmarshalBinary w0 (put_u16 OpWRQ @ name @ [0] @ str ''octet'' @ [0]) =
        (None, \<lparr>WRQ_Filename = name, WRQ_Mode = str ''octet''\<rparr>))"
proof (intro conjI impI)
  assume h: "0 \<notin> set name \<and> ToLower mode = str ''octet''"
  then have "mode \<noteq> []" using ToLower_octet_clean(2) by blast
  then show "ReadReq_MarshalBinary \<lparr>RRQ_Filename = name, RRQ_Mode = mode\<rparr> =
      Inr (put_u16 OpRRQ @ name @ [0] @ mode @ [0])"
    by (simp add: ReadReq_MarshalBinary_def)
  from h show "ReadReq_UnmarshalBinary q0 (put_u16 OpRRQ @ name @ [0] @ mode @ [0]) =
      (None, \<lparr>RRQ_Filename = name, RRQ_Mode = mode\<rparr>)"
    using ReadReq_round_trip [of name mode q0] by simp
next
  show "Ack_MarshalBinary a = Inr (put_u16 OpAck @ put_u16 (Ack_Block a))"
    by (simp add: Ack_MarshalBinary_def)
  show "Ack_UnmarshalBinary a0 (put_u16 OpAck @ put_u16 (Ack_Block a)) = (None, a)"
    using Ack_round_trip [of a0 a "[]"] by simp
next
  assume h: "0 \<notin> set (Err_Message e)"
  show "Err_MarshalBinary e = Inr (put_u16 OpErr @ put_u16 (Err_Error e) @ Err_Message e @ [0])"
    by (simp add: Err_MarshalBinary_def)
  from h show "Err_UnmarshalBinary e0 (put_u16 OpErr @ put_u16 (Err_Error e) @ Err_Message e @ [0]) =
      (None, e)"
    by (rule Err_round_trip)
next
  show "Data_MarshalBinary d =
      (Inr (put_u16 OpData @ put_u16 (Data_Block d + 1) @ take 512 (Data_Payload d)),
       \<lparr>Data_Block = Data_Block d + 1, Data_Payload = drop 512 (Data_Payload d)\<rparr>)"
    by (simp add: Data_MarshalBinary_def BlockSize_def DatagramSize_def)
  show "Data_UnmarshalBinary d0
        (put_u16 OpData @ put_u16 (Data_Block d + 1) @ take 512 (Data_Payload d)) =
      (None, \<lparr>Data_Block = Data_Block d + 1, Data_Payload = take 512 (Data_Payload d)\<rparr>)"
    by (simp add: Data_round_trip)
next
  assume "0 \<notin> set name"
  then show "WriteReq_UnmarshalBinary w0 (put_u16 OpWRQ @ name @ [0] @ str ''octet'' @ [0]) =
      (None, \<lparr>WRQ_Filename = name, WRQ_Mode = str ''octet''\<rparr>)"
    by (rule WriteReq_layout)
qed

theorem codec_round_trip_witness:
  "ReadReq_UnmarshalBinary \<lparr>RRQ_Filename = [], RRQ_Mode = []\<rparr> ([0, 1] @ [0] @ str ''OCTET'' @ [0]) =
     (None, \<lparr>RRQ_Filename = [], RRQ_Mode = str ''OCTET''\<rparr>) \<and>
   Err_UnmarshalBinary \<lparr>Err_Error = 0, Err_Message = []\<rparr> [0, 5, 0, 4, 0] =
     (None, \<lparr>Err_Error = 4, Err_Message = []\<rparr>) \<and>
   WriteReq_UnmarshalBinary \<lparr>WRQ_Filename = [], WRQ_Mode = []\<rparr> ([0, 2] @ [0] @ str ''octet'' @ [0]) =
     (None, \<lparr>WRQ_Filename = [], WRQ_Mode = str ''octet''\<rparr>)"
  using codec_round_trip [of "[]" "str ''OCTET''" "\<lparr>RRQ_Filename = [], RRQ_Mode = []\<rparr>"
      "\<lparr>Ack_Block = 7\<rparr>" "\<lparr>Ack_Block = 0\<rparr>"
      "\<lparr>Err_Error = 4, Err_Message = []\<rparr>" "\<lparr>Err_Error = 0, Err_Message = []\<rparr>"
      "\<lparr>Data_Block = 0, Data_Payload = []\<rparr>" "\<lparr>Data_Block = 0, Data_Payload = []\<rparr>"
      "\<lparr>WRQ_Filename = [], WRQ_Mode = []\<rparr>"]
  by (simp add: put_u16_def OpRRQ_def OpErr_def OpWRQ_def ToLower_def lower_byte_def str_def)

text \<open>
  The round trip as claim C1 states it fails for a Data packet with block number 0 and an
  empty payload: the encoder writes block number 1, and the decoder reads 1 back.
\<close>

theorem codec_round_trip_counterexample:
  "Data_MarshalBinary \<lparr>Data_Block = 0, Data_Payload = []\<rparr> =
     (Inr [0, 3, 0, 1], \<lparr>Data_Block = 1, Data_Payload = []\<rparr>) \<and>
   Data_UnmarshalBinary \<lparr>Data_Block = 0, Data_Payload = []\<rparr> [0, 3, 0, 1] =
     (None, \<lparr>Data_Block = 1, Data_Payload = []\<rparr>) \<and>
   \<lparr>Data_Block = 1, Data_Payload = []\<rparr> \<noteq> \<lparr>Data_Block = 0, Data_Payload = []\<rparr>"
  by (simp add: Data_MarshalBinary_def Data_UnmarshalBinary_def put_u16_def get_u16_def
      OpData_def BlockSize_def DatagramSize_def)

text \<open>
  Claim C2. The read-request decoder compares the lower-cased mode with \<open>octet\<close>: it
  accepts \<open>octet\<close>, \<open>OCTET\<close> and \<open>Octet\<close> and rejects \<open>netascii\<close>, \<open>MAIL\<close> and the empty
  mode. The write-request decoder compares the mode as it is: it rejects \<open>OCTET\<close> and
  \<open>Octet\<close> with the same error as \<open>netascii\<close>, \<open>MAIL\<close> and the empty mode, and accepts only
  \<open>octet\<close>.
\<close>

theorem WriteReq_mode_case_sensitive:
  "WriteReq_UnmarshalBinary w ([0, 2] @ str ''y.bin'' @ [0] @ str ''OCTET'' @ [0]) =
     (Some OctetModeOnly, \<lparr>WRQ_Filename = str ''y.bin'', WRQ_Mode = str ''OCTET''\<rparr>) \<and>
   WriteReq_UnmarshalBinary w ([0, 2] @ str ''y.bin'' @ [0] @ str ''Octet'' @ [0]) =
     (Some OctetModeOnly, \<lparr>WRQ_Filename = str ''y.bin'', WRQ_Mode = str ''Octet''\<rparr>) \<and>
   fst (WriteReq_UnmarshalBinary w ([0, 2] @ str ''y.bin'' @ [0] @ str ''octet'' @ [0])) = None \<and>
   fst (WriteReq_UnmarshalBinary w ([0, 2] @ str ''y.bin'' @ [0] @ str ''netascii'' @ [0])) =
     Some OctetModeOnly \<and>
   fst (WriteReq_UnmarshalBinary w ([0, 2] @ str ''y.bin'' @ [0] @ str ''MAIL'' @ [0])) =
     Some OctetModeOnly \<and>
   fst (WriteReq_UnmarshalBinary w ([0, 2] @ str ''y.bin'' @ [0] @ [] @ [0])) =
     Some OctetModeOnly \<and>
   fst (ReadReq_UnmarshalBinary q ([0, 1] @ str ''y.bin'' @ [0] @ str ''octet'' @ [0])) = None \<and>
   fst (ReadReq_UnmarshalBinary q ([0, 1] @ str ''y.bin'' @ [0] @ str ''OCTET'' @ [0])) = None \<and>
   fst (ReadReq_UnmarshalBinary q ([0, 1] @ str ''y.bin'' @ [0] @ str ''Octet'' @ [0])) = None \<and>
   fst (ReadReq_UnmarshalBinary q ([0, 1] @ str ''y.bin'' @ [0] @ str ''netascii'' @ [0])) =
     Some BinaryOnly \<and>
   fst (ReadReq_UnmarshalBinary q ([0, 1] @ str ''y.bin'' @ [0] @ str ''MAIL'' @ [0])) =
     Some BinaryOnly \<and>
   fst (ReadReq_UnmarshalBinary q ([0, 1] @ str ''y.bin'' @ [0] @ [] @ [0])) =
     Some (RRQMode None)"
  by (simp add: WriteReq_UnmarshalBinary_def ReadReq_UnmarshalBinary_def ReadString_def
      TrimRight_def ToLower_def lower_byte_def str_def get_u16_def OpWRQ_def OpRRQ_def)

text \<open>
  Claim C7. Decoding a Data packet fails with the malformed-packet error for every buffer
  shorter than 4 bytes or longer than 516 bytes, and for every buffer whose first two
  bytes are not the Data opcode; every other buffer of length \<open>L\<close> decodes, the block
  number read from bytes 2 and 3 and the payload exactly the \<open>L - 4\<close> bytes after the
  header, with no further check of the length.
\<close>

theorem Data_UnmarshalBinary_bounds:
  "(length p < 4 \<or> 516 < length p \<longrightarrow> Data_UnmarshalBinary d p = (Some InvalidDATA, d)) \<and>
   (take 2 p \<noteq> put_u16 OpData \<longrightarrow> Data_UnmarshalBinary d p = (Some InvalidDATA, d)) \<and>
   (4 \<le> length p \<and> length p \<le> 516 \<and> take 2 p = put_u16 OpData \<longrightarrow>
      Data_UnmarshalBinary d p =
        (None, \<lparr>Data_Block = get_u16 (p ! 2) (p ! 3), Data_Payload = drop 4 p\<rparr>) \<and>
      length (drop 4 p) = length p - 4)"
proof (cases "length p < 4 \<or> 516 < length p")
  case True
  then show ?thesis by (auto simp: Data_UnmarshalBinary_def DatagramSize_def)
next
  case False
  then obtain a b c e r where p: "p = a # b # c # e # r"
    by (cases p; cases "tl p"; cases "tl (tl p)"; cases "tl (tl (tl p))") auto
  with False have r: "length r \<le> 512" by simp
  show ?thesis
    using False unfolding p Data_UnmarshalBinary_header [OF r] by simp
qed

theorem Data_UnmarshalBinary_bounds_witness:
  "Data_UnmarshalBinary \<lparr>Data_Block = 9, Data_Payload = []\<rparr> [0, 3, 0] =
     (Some InvalidDATA, \<lparr>Data_Block = 9, Data_Payload = []\<rparr>) \<and>
   Data_UnmarshalBinary \<lparr>Data_Block = 9, Data_Payload = []\<rparr> [0, 4, 0, 1] =
     (Some InvalidDATA, \<lparr>Data_Block = 9, Data_Payload = []\<rparr>) \<and>
   Data_UnmarshalBinary \<lparr>Data_Block = 9, Data_Payload = []\<rparr> [0, 3, 0, 1, 65, 66] =
     (None, \<lparr>Data_Block = 1, Data_Payload = [65, 66]\<rparr>)"
  using Data_UnmarshalBinary_bounds [of "[0, 3, 0]" "\<lparr>Data_Block = 9, Data_Payload = []\<rparr>"]
    Data_UnmarshalBinary_bounds [of "[0, 4, 0, 1]" "\<lparr>Data_Block = 9, Data_Payload = []\<rparr>"]
    Data_UnmarshalBinary_bounds [of "[0, 3, 0, 1, 65, 66]" "\<lparr>Data_Block = 9, Data_Payload = []\<rparr>"]
  by (simp add: put_u16_def OpData_def get_u16_def)

section \<open>Properties of the download session\<close>

lemma retry_all_timeouts:
  "set ios \<subseteq> {ReadTimeout} \<Longrightarrow>
   retry data i st ios = (replicate i (Sent data), Return ExhaustedRetries)"
proof (induction i arbitrary: ios)
  case 0
  show ?case by simp
next
  case (Suc i)
  show ?case
  proof (cases ios)
    case Nil
    with Suc.IH [of "[]"] show ?thesis by (simp add: prepend_def)
  next
    case (Cons x xs)
    with Suc.prems have x: "x = ReadTimeout" and xs: "set xs \<subseteq> {ReadTimeout}" by auto
    from Suc.IH [OF xs] show ?thesis by (simp add: Cons x prepend_def)
  qed
qed

lemma send_loop_all_timeouts:
  assumes "set ios \<subseteq> {ReadTimeout}"
  shows "send_loop s DatagramSize st ios =
     (replicate (unat (Retries s))
        (Sent (put_u16 OpData @ put_u16 (Data_Block (dataPkt st) + 1) @
               take 512 (Data_Payload (dataPkt st)))),
      ExhaustedRetries)"
  by (simp add: Data_MarshalBinary_def Let_def retry_all_timeouts [OF assms] BlockSize_def
      DatagramSize_def)

text \<open>
  Claim C5. For every retry budget, a download in which every wait for the Ack runs into
  the deadline sends the same data packet (same block number, same payload bytes) exactly
  as many times as the budget says, then gives up with "exhausted retries" and sends
  nothing more. This holds from any pass of the \<open>NEXTPACKET\<close> loop, and so for the first
  block of a session.
\<close>

theorem retry_budget_all_timeouts:
  assumes "set ios \<subseteq> {ReadTimeout}"
  shows "send_loop s DatagramSize st ios =
           (replicate (unat (Retries s))
              (Sent (put_u16 OpData @ put_u16 (Data_Block (dataPkt st) + 1) @
                     take 512 (Data_Payload (dataPkt st)))),
            ExhaustedRetries) \<and>
         handleRead s clientAddr rrq True ios =
           (replicate (unat (Retries s))
              (Sent (put_u16 OpData @ put_u16 1 @ take 512 (payload_bytes (Payload s)))),
            ExhaustedRetries)"
  using send_loop_all_timeouts [OF assms] by (simp add: handleRead_def)

theorem retry_budget_all_timeouts_witness:
  "set [ReadTimeout, ReadTimeout, ReadTimeout, ReadTimeout] \<subseteq> {ReadTimeout} \<and>
   handleRead \<lparr>WriteAllowed = False, WriteDir = [], Payload = Some [65, 66], Retries = 3, Timeout = 0\<rparr>
       ''client'' \<lparr>RRQ_Filename = str ''x'', RRQ_Mode = str ''octet''\<rparr> True
       [ReadTimeout, ReadTimeout, ReadTimeout, ReadTimeout] =
     (replicate 3 (Sent [0, 3, 0, 1, 65, 66]), ExhaustedRetries)"
proof -
  have h: "set [ReadTimeout, ReadTimeout, ReadTimeout, ReadTimeout] \<subseteq> {ReadTimeout}"
    by simp
  show ?thesis
    using h retry_budget_all_timeouts [OF h, THEN conjunct2,
      of "\<lparr>WriteAllowed = False, WriteDir = [], Payload = Some [65, 66], Retries = 3, Timeout = 0\<rparr>"
      "''client''" "\<lparr>RRQ_Filename = str ''x'', RRQ_Mode = str ''octet''\<rparr>"]
    by (simp add: put_u16_def OpData_def payload_bytes_def)
qed







lemma all_acked_Suc: "all_acked b (Suc m) = ack_of (b + 1) # all_acked (b + 1) m"
  by (simp add: all_acked_def map_upt_Suc add.commute add.left_commute del: upt_Suc)

lemma conn_Read_fits:
  "length d \<le> length b \<Longrightarrow> conn_Read b d = (length d, d @ drop (length d) b)"
  by (simp add: conn_Read_def Let_def)

lemma conn_Read_ack:
  assumes "4 \<le> length b"
  shows "conn_Read b (put_u16 OpAck @ put_u16 blk) = (4, put_u16 OpAck @ put_u16 blk @ drop 4 b)"
proof -
  have l: "length (put_u16 OpAck @ put_u16 blk) = 4" by (simp add: put_u16_def)
  show ?thesis
    using assms conn_Read_fits [of "put_u16 OpAck @ put_u16 blk" b] unfolding l by simp
qed

lemma retry_acked:
  assumes "4 \<le> length (buf st)"
  shows "retry data (Suc i) st (ack_of (Data_Block (dataPkt st)) # ios) =
     ([Sent data],
      Next (st\<lparr>buf := put_u16 OpAck @ put_u16 (Data_Block (dataPkt st)) @ drop 4 (buf st),
               ackPkt := (ackPkt st)\<lparr>Ack_Block := Data_Block (dataPkt st)\<rparr>\<rparr>) ios)"
  using conn_Read_ack [OF assms, of "Data_Block (dataPkt st)"]
    Ack_round_trip [of "ackPkt st" "\<lparr>Ack_Block = Data_Block (dataPkt st)\<rparr>" "drop 4 (buf st)"]
  by (simp add: ack_of_def marshalled_def Ack_MarshalBinary_def Let_def)

lemma send_loop_all_acked:
  assumes r: "0 < unat (Retries s)"
  shows "4 \<le> length (buf st) \<Longrightarrow> length (Data_Payload (dataPkt st)) div 512 = m \<Longrightarrow>
     send_loop s DatagramSize st (all_acked (Data_Block (dataPkt st)) (Suc m)) =
       (map (\<lambda>k. Sent (put_u16 OpData @ put_u16 (Data_Block (dataPkt st) + 1 + of_nat k) @
                        take 512 (drop (512 * k) (Data_Payload (dataPkt st))))) [0..<Suc m],
        SentBlocks (Data_Block (dataPkt st) + 1 + of_nat m))"
proof (induction m arbitrary: st)
  case 0
  obtain i where i: "unat (Retries s) = Suc i" using r by (cases "unat (Retries s)") auto
  let ?d = "(dataPkt st)\<lparr>Data_Block := Data_Block (dataPkt st) + 1,
             Data_Payload := drop 512 (Data_Payload (dataPkt st))\<rparr>"
  let ?st1 = "st\<lparr>dataPkt := ?d\<rparr>"
  have len: "length (Data_Payload (dataPkt st)) < 512" using 0(2) by simp
  have b: "4 \<le> length (buf ?st1)" using 0(1) by simp
  show ?case
    using len retry_acked [OF b, of _ i "[]"]
    by (subst send_loop.simps)
      (simp add: Data_MarshalBinary_def Let_def BlockSize_def DatagramSize_def i
        all_acked_def prepend_def put_u16_def)
next
  case (Suc m)
  obtain i where i: "unat (Retries s) = Suc i" using r by (cases "unat (Retries s)") auto
  let ?P = "Data_Payload (dataPkt st)"
  let ?d = "(dataPkt st)\<lparr>Data_Block := Data_Block (dataPkt st) + 1, Data_Payload := drop 512 ?P\<rparr>"
  let ?st1 = "st\<lparr>dataPkt := ?d\<rparr>"
  let ?st2 = "?st1\<lparr>buf := put_u16 OpAck @ put_u16 (Data_Block (dataPkt ?st1)) @ drop 4 (buf ?st1),
               ackPkt := (ackPkt ?st1)\<lparr>Ack_Block := Data_Block (dataPkt ?st1)\<rparr>\<rparr>"
  have len: "512 \<le> length ?P" using Suc.prems(2) by (cases "length ?P < 512") auto
  have m: "length (Data_Payload (dataPkt ?st2)) div 512 = m"
    using Suc.prems(2) len by (simp add: le_div_geq)
  have b1: "4 \<le> length (buf ?st1)" using Suc.prems(1) by simp
  have b2: "4 \<le> length (buf ?st2)" by (simp add: put_u16_def)
  note IH = Suc.IH [OF b2 m]
  have step: "send_loop s DatagramSize st (all_acked (Data_Block (dataPkt st)) (Suc (Suc m))) =
      prepend [Sent (put_u16 OpData @ put_u16 (Data_Block (dataPkt st) + 1) @ take 512 ?P)]
        (send_loop s DatagramSize ?st2 (all_acked (Data_Block (dataPkt ?st2)) (Suc m)))"
    using len retry_acked [OF b1, of _ i "all_acked (Data_Block (dataPkt st) + 1) (Suc m)"]
    by (subst send_loop.simps, subst all_acked_Suc)
      (simp add: Data_MarshalBinary_def Let_def BlockSize_def DatagramSize_def i put_u16_def)
  have shift: "map (\<lambda>k. Sent (put_u16 OpData @ put_u16 (Data_Block (dataPkt st) + 1 + of_nat k) @
                        take 512 (drop (512 * k) ?P))) [0..<Suc (Suc m)] =
      Sent (put_u16 OpData @ put_u16 (Data_Block (dataPkt st) + 1) @ take 512 ?P) #
      map (\<lambda>k. Sent (put_u16 OpData @ put_u16 (Data_Block (dataPkt ?st2) + 1 + of_nat k) @
                        take 512 (drop (512 * k) (Data_Payload (dataPkt ?st2))))) [0..<Suc m]"
    by (subst map_upt_Suc) (simp add: add.commute add.left_commute del: upt_Suc)
  show ?case
    unfolding step IH shift
    by (simp add: prepend_def add.commute add.left_commute)
qed

lemma handleRead_all_acked:
  assumes "Retries s \<noteq> 0"
  shows "handleRead s clientAddr rrq True
           (all_acked 0 (Suc (length (payload_bytes (Payload s)) div 512))) =
         (map (\<lambda>k. Sent (put_u16 OpData @ put_u16 (1 + of_nat k) @
                          take 512 (drop (512 * k) (payload_bytes (Payload s)))))
            [0..<Suc (length (payload_bytes (Payload s)) div 512)],
          SentBlocks (1 + of_nat (length (payload_bytes (Payload s)) div 512)))"
proof -
  let ?st = "\<lparr>ackPkt = \<lparr>Ack_Block = 0\<rparr>, errPkt = \<lparr>Err_Error = 0, Err_Message = []\<rparr>,
      dataPkt = \<lparr>Data_Block = 0, Data_Payload = payload_bytes (Payload s)\<rparr>,
      buf = replicate DatagramSize 0\<rparr>"
  have r: "0 < unat (Retries s)" using assms by (simp add: unat_gt_0)
  have b: "4 \<le> length (buf ?st)" by (simp add: DatagramSize_def)
  show ?thesis
    using send_loop_all_acked [OF r b refl]
    by (simp add: handleRead_def del: upt_Suc)
qed

lemma chunk_lengths:
  "k < length P div 512 \<Longrightarrow> length (take 512 (drop (512 * k) P)) = 512"
  "length (take 512 (drop (512 * (length P div 512)) P)) = length P mod 512"
proof -
  show "length (take 512 (drop (512 * (length P div 512)) P)) = length P mod 512"
    by (simp add: minus_mult_div_eq_mod min_def) 
  assume "k < length P div 512"
  then have "Suc k \<le> length P div 512" by simp
  then have "512 * Suc k \<le> 512 * (length P div 512)" by (simp only: mult_le_cancel1) simp
  also have "\<dots> \<le> length P" by simp
  finally show "length (take 512 (drop (512 * k) P)) = 512" by simp
qed

text \<open>
  Claim C6. When every block is acknowledged, a download of an \<open>N\<close>-byte payload sends
  \<open>N div 512 + 1\<close> data packets and then ends: the first \<open>N div 512\<close> carry 512 bytes each
  and the last carries \<open>N mod 512\<close> bytes, fewer than 512, which is the empty payload when
  \<open>N\<close> is a multiple of 512.
\<close>

theorem download_final_block:
  fixes s :: TFTPServer
  defines "P \<equiv> payload_bytes (Payload s)"
  assumes "Retries s \<noteq> 0"
  shows "handleRead s clientAddr rrq True (all_acked 0 (length P div 512 + 1)) =
           (map (\<lambda>k. Sent (put_u16 OpData @ put_u16 (of_nat (k + 1)) @ take 512 (drop (512 * k) P)))
              [0..<length P div 512 + 1],
            SentBlocks (of_nat (length P div 512 + 1))) \<and>
         (\<forall>k < length P div 512. length (take 512 (drop (512 * k) P)) = 512) \<and>
         length (take 512 (drop (512 * (length P div 512)) P)) = length P mod 512 \<and>
         length P mod 512 < 512 \<and>
         (512 dvd length P \<longrightarrow> take 512 (drop (512 * (length P div 512)) P) = [])"
proof (intro conjI allI impI)
  show "handleRead s clientAddr rrq True (all_acked 0 (length P div 512 + 1)) =
           (map (\<lambda>k. Sent (put_u16 OpData @ put_u16 (of_nat (k + 1)) @ take 512 (drop (512 * k) P)))
              [0..<length P div 512 + 1],
            SentBlocks (of_nat (length P div 512 + 1)))"
    using handleRead_all_acked [OF assms(2), of clientAddr rrq]
    by (simp add: P_def add.commute del: upt_Suc)
  show "length (take 512 (drop (512 * (length P div 512)) P)) = length P mod 512"
    by (rule chunk_lengths(2))
  show "length P mod 512 < 512" by simp
  show "length (take 512 (drop (512 * k) P)) = 512" if "k < length P div 512" for k
    using that by (rule chunk_lengths(1))
  show "take 512 (drop (512 * (length P div 512)) P) = []" if "512 dvd length P"
    using that by simp
qed


theorem download_final_block_witness:
  "Retries \<lparr>WriteAllowed = False, WriteDir = [], Payload = Some (replicate 1024 7),
             Retries = 10, Timeout = 0\<rparr> \<noteq> 0 \<and>
   handleRead \<lparr>WriteAllowed = False, WriteDir = [], Payload = Some (replicate 1024 7),
             Retries = 10, Timeout = 0\<rparr> ''client''
       \<lparr>RRQ_Filename = str ''x'', RRQ_Mode = str ''octet''\<rparr> True (all_acked 0 3) =
     ([Sent ([0, 3, 0, 1] @ replicate 512 7), Sent ([0, 3, 0, 2] @ replicate 512 7),
       Sent [0, 3, 0, 3]],
      SentBlocks 3)"
proof -
  have u: "[0..<3] = [0, 1, 2::nat]" by code_simp
  show ?thesis
    using download_final_block [of
      "\<lparr>WriteAllowed = False, WriteDir = [], Payload = Some (replicate 1024 7),
             Retries = 10, Timeout = 0\<rparr>" "''client''"
      "\<lparr>RRQ_Filename = str ''x'', RRQ_Mode = str ''octet''\<rparr>"]
    by (simp add: payload_bytes_def put_u16_def OpData_def u)
qed

lemma all_acked_nth:
  "k \<le> length P div 512 \<Longrightarrow>
   map (\<lambda>k. Sent (put_u16 OpData @ put_u16 (1 + of_nat k) @ take 512 (drop (512 * k) P)))
     [0..<Suc (length P div 512)] ! k =
   Sent (put_u16 OpData @ put_u16 (1 + of_nat k) @ take 512 (drop (512 * k) P))"
  by (subst nth_map_upt) simp_all

text \<open>
  Claim C9. In a download where every block is acknowledged, the data packets carry the
  block numbers 1, 2, 3, ... as 16-bit values: packet \<open>k\<close> (counting from 0) has block number
  \<open>k + 1\<close> modulo \<open>2^16\<close>. When the payload has more than 65535 full blocks, the packet after
  block 65535 has block number 0 and the session goes on with block number 1; the number
  of packets depends on the payload length alone.
\<close>

theorem block_numbers_wrap:
  fixes s :: TFTPServer and clientAddr :: string and rrq :: ReadReq
  defines "P \<equiv> payload_bytes (Payload s)"
  defines "sent \<equiv> fst (handleRead s clientAddr rrq True (all_acked 0 (length P div 512 + 1)))"
  assumes "Retries s \<noteq> 0"
  shows "length sent = length P div 512 + 1 \<and>
         (\<forall>k \<le> length P div 512.
            sent ! k = Sent (put_u16 OpData @ put_u16 (of_nat (k + 1)) @ take 512 (drop (512 * k) P))) \<and>
         sent ! 0 = Sent (put_u16 OpData @ put_u16 1 @ take 512 P) \<and>
         (65535 < length P div 512 \<longrightarrow>
            sent ! 65534 = Sent (put_u16 OpData @ put_u16 65535 @ take 512 (drop (512 * 65534) P)) \<and>
            sent ! 65535 = Sent (put_u16 OpData @ put_u16 0 @ take 512 (drop (512 * 65535) P)) \<and>
            sent ! 65536 = Sent (put_u16 OpData @ put_u16 1 @ take 512 (drop (512 * 65536) P)))"
proof -
  have sent: "sent = map (\<lambda>k. Sent (put_u16 OpData @ put_u16 (1 + of_nat k) @
      take 512 (drop (512 * k) P))) [0..<Suc (length P div 512)]"
    using handleRead_all_acked [OF assms(3), of clientAddr rrq]
    by (simp add: sent_def P_def del: upt_Suc)
  have nth: "sent ! k = Sent (put_u16 OpData @ put_u16 (1 + of_nat k) @ take 512 (drop (512 * k) P))"
    if "k \<le> length P div 512" for k
    unfolding sent using that by (rule all_acked_nth)
  have w1: "(1 + of_nat 65534 :: 16 word) = 65535" by simp
  have w2: "(1 + of_nat 65535 :: 16 word) = 0" by simp
  have w3: "(1 + of_nat 65536 :: 16 word) = 1" by simp
  show ?thesis
  proof (intro conjI allI impI)
    show "length sent = length P div 512 + 1" by (simp add: sent del: upt_Suc)
    show "sent ! k = Sent (put_u16 OpData @ put_u16 (of_nat (k + 1)) @ take 512 (drop (512 * k) P))"
      if "k \<le> length P div 512" for k
      using nth [OF that] by (simp add: add.commute)
    show "sent ! 0 = Sent (put_u16 OpData @ put_u16 1 @ take 512 P)"
      using nth [of 0] by simp
    assume big: "65535 < length P div 512"
    show "sent ! 65534 = Sent (put_u16 OpData @ put_u16 65535 @ take 512 (drop (512 * 65534) P))"
      using nth [of 65534] big unfolding w1 by simp
    show "sent ! 65535 = Sent (put_u16 OpData @ put_u16 0 @ take 512 (drop (512 * 65535) P))"
      using nth [of 65535] big unfolding w2 by simp
    show "sent ! 65536 = Sent (put_u16 OpData @ put_u16 1 @ take 512 (drop (512 * 65536) P))"
      using nth [of 65536] big unfolding w3 by simp
  qed
qed


theorem block_numbers_wrap_witness:
  "Retries \<lparr>WriteAllowed = False, WriteDir = [], Payload = Some (replicate 33554944 0),
             Retries = 10, Timeout = 0\<rparr> \<noteq> 0 \<and>
   65535 < length (replicate 33554944 (0::byte)) div 512 \<and>
   length (fst (handleRead \<lparr>WriteAllowed = False, WriteDir = [],
             Payload = Some (replicate 33554944 0), Retries = 10, Timeout = 0\<rparr> ''client''
       \<lparr>RRQ_Filename = str ''x'', RRQ_Mode = str ''octet''\<rparr> True (all_acked 0 65538))) = 65538 \<and>
   fst (handleRead \<lparr>WriteAllowed = False, WriteDir = [],
             Payload = Some (replicate 33554944 0), Retries = 10, Timeout = 0\<rparr> ''client''
       \<lparr>RRQ_Filename = str ''x'', RRQ_Mode = str ''octet''\<rparr> True (all_acked 0 65538)) ! 65535 =
     Sent ([0, 3, 0, 0] @ replicate 512 0) \<and>
   fst (handleRead \<lparr>WriteAllowed = False, WriteDir = [],
             Payload = Some (replicate 33554944 0), Retries = 10, Timeout = 0\<rparr> ''client''
       \<lparr>RRQ_Filename = str ''x'', RRQ_Mode = str ''octet''\<rparr> True (all_acked 0 65538)) ! 65536 =
     Sent ([0, 3, 0, 1] @ replicate 512 0)"
  using block_numbers_wrap [of
      "\<lparr>WriteAllowed = False, WriteDir = [], Payload = Some (replicate 33554944 0),
             Retries = 10, Timeout = 0\<rparr>" "''client''"
      "\<lparr>RRQ_Filename = str ''x'', RRQ_Mode = str ''octet''\<rparr>"]
  by (simp add: payload_bytes_def put_u16_def OpData_def)

section \<open>Properties of the upload session\<close>

lemma Err_rejects_Data:
  "take 2 b = put_u16 OpData \<Longrightarrow> \<exists>e'. Err_UnmarshalBinary e b = (Some InvalidError, e')"
proof -
  assume t: "take 2 b = put_u16 OpData"
  then obtain r where b: "b = put_u16 OpData @ r"
    by (metis append_take_drop_id)
  show ?thesis
    unfolding b by (simp add: Err_UnmarshalBinary_def binary_Read_put_u16 OpData_def OpErr_def)
qed

lemma conn_Read_props:
  assumes "conn_Read b0 d = (n, b)"
  shows "n = min (length d) (length b0)" and "length b = length b0"
    and "take n b = take n d" and "\<forall>i. n \<le> i \<and> i < length b0 \<longrightarrow> b ! i = b0 ! i"
  using assms by (auto simp: conn_Read_def Let_def nth_append)

text \<open>
  Claim C10. The upload loop decodes the whole 516-byte receive buffer, whatever the
  number \<open>n\<close> of bytes read: the buffer keeps its length and, from position \<open>n\<close> on, its
  earlier contents; the Data decoder therefore never rejects for the length (a buffer
  that starts with the Data opcode always decodes, with a 512-byte payload), and the only
  decoding failure in this path is the opcode. When fewer than 4 bytes were read and the
  buffer starts with the Data opcode, the slice \<open>data[:n-4]\<close> has a negative bound and the
  session panics; a session whose first datagram is the two bytes of the Data opcode gets
  there.
\<close>

theorem upload_decodes_whole_buffer:
  assumes len: "length (buf st) = DatagramSize" and rd: "conn_Read (buf st) d = (n, b)"
  shows "length b = DatagramSize \<and> n = min (length d) DatagramSize \<and>
         (\<forall>i. n \<le> i \<and> i < DatagramSize \<longrightarrow> b ! i = buf st ! i) \<and>
         (take 2 b = put_u16 OpData \<longrightarrow>
            Data_UnmarshalBinary (dataPkt st) b =
              (None, \<lparr>Data_Block = get_u16 (b ! 2) (b ! 3), Data_Payload = drop 4 b\<rparr>) \<and>
            length (drop 4 b) = BlockSize) \<and>
         (\<forall>err. snd (recv_loop DatagramSize st [Recv d file_ok send_ok]) = BadData err \<longrightarrow>
            take 2 b \<noteq> put_u16 OpData) \<and>
         (n < 4 \<and> take 2 b = put_u16 OpData \<longrightarrow>
            recv_loop DatagramSize st (Recv d file_ok send_ok # ios) = ([], SliceBoundsPanic)) \<and>
         handleWrite s clientAddr wrq
             \<lparr>dial_ok = True, ack_ok = True, create_ok = True, arrivals = [Recv [0, 3] True True]\<rparr> =
           ([Sent [0, 4, 0, 0], Created (WRQ_Filename wrq)], SliceBoundsPanic)"
proof -
  note cr = conn_Read_props [OF rd]
  have lb: "length b = 516" using cr(2) len by (simp add: DatagramSize_def)
  have dec: "Data_UnmarshalBinary dp b =
      (None, \<lparr>Data_Block = get_u16 (b ! 2) (b ! 3), Data_Payload = drop 4 b\<rparr>)"
    if t: "take 2 b = put_u16 OpData" for dp
  proof -
    from lb obtain a0 a1 a2 a3 r where b: "b = a0 # a1 # a2 # a3 # r"
      by (cases b; cases "tl b"; cases "tl (tl b)"; cases "tl (tl (tl b))") auto
    with lb have r: "length r \<le> 512" by simp
    show ?thesis
      using t unfolding b Data_UnmarshalBinary_header [OF r] by simp
  qed
  have last: "snd (recv_loop m st' []) \<noteq> BadData err" for m st' err
    by (subst recv_loop.simps) simp
  have loop: "recv_loop DatagramSize st (Recv d file_ok send_ok # ios) =
      (case slice_to (drop 4 b) (int n - 4) of
         None \<Rightarrow> ([], SliceBoundsPanic)
       | Some chunk \<Rightarrow>
           if \<not> file_ok then ([], FileWriteFailed)
           else if \<not> send_ok then ([Wrote chunk], WriteFailed)
           else prepend [Wrote chunk, Sent (put_u16 OpAck @ put_u16 (get_u16 (b ! 2) (b ! 3)))]
                  (recv_loop n
                    (st\<lparr>buf := b, errPkt := snd (Err_UnmarshalBinary (errPkt st) b),
                        dataPkt := \<lparr>Data_Block = get_u16 (b ! 2) (b ! 3), Data_Payload = []\<rparr>,
                        ackPkt := (ackPkt st)\<lparr>Ack_Block := get_u16 (b ! 2) (b ! 3)\<rparr>\<rparr>) ios))"
    if t: "take 2 b = put_u16 OpData" for ios
  proof -
    from Err_rejects_Data [OF t, of "errPkt st"] obtain e' where
      e: "Err_UnmarshalBinary (errPkt st) b = (Some InvalidError, e')" by blast
    show ?thesis
      by (subst recv_loop.simps)
        (simp add: rd e dec [OF t] Let_def Ack_MarshalBinary_def split: option.splits)
  qed
  have bad: "take 2 b \<noteq> put_u16 OpData"
    if "snd (recv_loop DatagramSize st [Recv d file_ok send_ok]) = BadData err" for err
  proof
    assume t: "take 2 b = put_u16 OpData"
    from that show False
      unfolding loop [OF t]
      by (simp add: prepend_def last split: option.splits if_splits)
  qed
  have panic: "recv_loop DatagramSize st (Recv d file_ok send_ok # ios) = ([], SliceBoundsPanic)"
    if "n < 4" "take 2 b = put_u16 OpData"
    unfolding loop [OF that(2)] using that(1) by (simp add: slice_to_def)
  have reach: "handleWrite s clientAddr wrq
             \<lparr>dial_ok = True, ack_ok = True, create_ok = True, arrivals = [Recv [0, 3] True True]\<rparr> =
           ([Sent [0, 4, 0, 0], Created (WRQ_Filename wrq)], SliceBoundsPanic)"
    by code_simp
  show ?thesis
    using lb cr(1,4) len dec bad panic reach
    by (auto simp: DatagramSize_def BlockSize_def)
qed


theorem upload_decodes_whole_buffer_witness:
  "length (buf \<lparr>ackPkt = \<lparr>Ack_Block = 0\<rparr>, errPkt = \<lparr>Err_Error = 0, Err_Message = []\<rparr>,
                dataPkt = \<lparr>Data_Block = 0, Data_Payload = []\<rparr>,
                buf = replicate DatagramSize 0\<rparr>) = DatagramSize \<and>
   conn_Read (buf \<lparr>ackPkt = \<lparr>Ack_Block = 0\<rparr>, errPkt = \<lparr>Err_Error = 0, Err_Message = []\<rparr>,
                dataPkt = \<lparr>Data_Block = 0, Data_Payload = []\<rparr>,
                buf = replicate DatagramSize 0\<rparr>) [0, 3] = (2, [0, 3] @ replicate 514 0) \<and>
   recv_loop DatagramSize
     \<lparr>ackPkt = \<lparr>Ack_Block = 0\<rparr>, errPkt = \<lparr>Err_Error = 0, Err_Message = []\<rparr>,
      dataPkt = \<lparr>Data_Block = 0, Data_Payload = []\<rparr>, buf = replicate DatagramSize 0\<rparr>
     [Recv [0, 3] True True] = ([], SliceBoundsPanic)"
proof -
  let ?st = "\<lparr>ackPkt = \<lparr>Ack_Block = 0\<rparr>, errPkt = \<lparr>Err_Error = 0, Err_Message = []\<rparr>,
      dataPkt = \<lparr>Data_Block = 0, Data_Payload = []\<rparr>, buf = replicate DatagramSize 0\<rparr>"
  have h1: "length (buf ?st) = DatagramSize" by simp
  have h2: "conn_Read (buf ?st) [0, 3] = (2, [0, 3] @ replicate 514 0)"
    by (simp add: conn_Read_def Let_def DatagramSize_def)
  have t: "(2::nat) < 4 \<and> take 2 ([0, 3] @ replicate 514 0) = put_u16 OpData"
    by (simp add: put_u16_def OpData_def)
  from upload_decodes_whole_buffer [OF h1 h2, of True True "[]"] t
  have "recv_loop DatagramSize ?st [Recv [0, 3] True True] = ([], SliceBoundsPanic)"
    by blast
  with h1 h2 show ?thesis by (intro conjI)
qed

text \<open>
  Claim C8. The upload handler creates the file at the requested file name as it is: a
  server configured with the directory \<open>/srv/tftp\<close> and asked to write \<open>/tmp/y.bin\<close> creates
  \<open>/tmp/y.bin\<close>, and the session is the same whatever \<open>WriteDir\<close> holds.
\<close>

theorem handleWrite_ignores_WriteDir:
  "handleWrite
       \<lparr>WriteAllowed = True, WriteDir = str ''/srv/tftp'', Payload = Some [], Retries = 10, Timeout = 0\<rparr>
       ''client'' \<lparr>WRQ_Filename = str ''/tmp/y.bin'', WRQ_Mode = str ''octet''\<rparr>
       \<lparr>dial_ok = True, ack_ok = True, create_ok = True,
        arrivals = [Recv [0, 3, 0, 1, 65, 66] True True]\<rparr> =
     ([Sent [0, 4, 0, 0], Created (str ''/tmp/y.bin''), Wrote [65, 66], Sent [0, 4, 0, 1]],
      ReceivedBlocks 1) \<and>
   handleWrite (s\<lparr>WriteDir := dir\<rparr>) clientAddr wrq env = handleWrite s clientAddr wrq env"
proof
  show "handleWrite
       \<lparr>WriteAllowed = True, WriteDir = str ''/srv/tftp'', Payload = Some [], Retries = 10, Timeout = 0\<rparr>
       ''client'' \<lparr>WRQ_Filename = str ''/tmp/y.bin'', WRQ_Mode = str ''octet''\<rparr>
       \<lparr>dial_ok = True, ack_ok = True, create_ok = True,
        arrivals = [Recv [0, 3, 0, 1, 65, 66] True True]\<rparr> =
     ([Sent [0, 4, 0, 0], Created (str ''/tmp/y.bin''), Wrote [65, 66], Sent [0, 4, 0, 1]],
      ReceivedBlocks 1)"
    by code_simp
  show "handleWrite (s\<lparr>WriteDir := dir\<rparr>) clientAddr wrq env = handleWrite s clientAddr wrq env"
    by (simp add: handleWrite_def)
qed

section \<open>Properties of the dispatcher\<close>

lemma WriteReq_layout_padded:
  assumes n: "0 \<notin> set name"
  shows "WriteReq_UnmarshalBinary w (put_u16 OpWRQ @ name @ [0] @ str ''octet'' @ [0] @ r) =
           (None, \<lparr>WRQ_Filename = name, WRQ_Mode = str ''octet''\<rparr>)"
proof -
  have c: "0 \<notin> set (str ''octet'')" by (simp add: str_def)
  have 1: "ReadString (name @ 0 # str ''octet'' @ 0 # r) 0 =
      ((name @ [0], None), str ''octet'' @ 0 # r)"
    using ReadString_terminated [OF n, of "str ''octet'' @ 0 # r"] by simp
  have 2: "ReadString (str ''octet'' @ 0 # r) 0 = ((str ''octet'' @ [0], None), r)"
    using ReadString_terminated [OF c, of r] by simp
  show ?thesis
    by (simp add: WriteReq_UnmarshalBinary_def binary_Read_put_u16 1 2
        TrimRight_terminated [OF n] TrimRight_terminated [OF c])
qed

lemma ReadReq_rejects_WRQ:
  "fst (ReadReq_UnmarshalBinary q (put_u16 OpWRQ @ r)) = Some (InvalidRRQ OpWRQ)"
  by (simp add: ReadReq_UnmarshalBinary_def binary_Read_put_u16 OpWRQ_def OpRRQ_def)

lemma conn_Read_fresh:
  "length d \<le> n \<Longrightarrow> snd (conn_Read (replicate n 0) d) = d @ replicate (n - length d) 0"
  by (simp add: conn_Read_def Let_def)

lemma handleWrite_first_ack:
  "dial_ok env \<Longrightarrow> ack_ok env \<Longrightarrow>
   \<exists>tr. fst (handleWrite s clientAddr wrq env) = Sent (put_u16 OpAck @ put_u16 0) # tr"
  by (simp add: handleWrite_def Ack_MarshalBinary_def Let_def prepend_def)

text \<open>
  The dispatcher's pass for any well-formed write request (file name without NUL byte,
  mode \<open>octet\<close>, at most 516 bytes) while \<open>WriteAllowed\<close> is false: the Error packet goes
  out on the listening socket and \<open>handleWrite\<close> is started after it, since the write to
  the socket is not followed by a \<open>continue\<close>; \<open>handleWrite\<close> never reads the flag.
\<close>

lemma Serve_write_disabled_launches:
  assumes "WriteAllowed s = False" and "Payload s \<noteq> None"
    and "0 \<notin> set name" and "length name + 9 \<le> 516"
  shows "\<exists>s'. Serve s (Some [Arrives addr (put_u16 OpWRQ @ name @ [0] @ str ''octet'' @ [0])]) =
           ([WriteTo (put_u16 OpErr @ put_u16 ErrIllegalOp @
                      str ''We don't accept write requests'' @ [0]) addr,
             GoHandleWrite s' addr \<lparr>WRQ_Filename = name, WRQ_Mode = str ''octet''\<rparr>],
            None) \<and>
         WriteAllowed s' = False \<and>
         (\<forall>env. dial_ok env \<and> ack_ok env \<longrightarrow>
            (\<exists>tr. fst (handleWrite s' addr \<lparr>WRQ_Filename = name, WRQ_Mode = str ''octet''\<rparr> env) =
               Sent (put_u16 OpAck @ put_u16 0) # tr))"
proof -
  let ?d = "put_u16 OpWRQ @ name @ [0] @ str ''octet'' @ [0]"
  define B where "B = snd (conn_Read (replicate DatagramSize 0) ?d)"
  define s1 where "s1 = (if Retries s = 0 then s\<lparr>Retries := 10\<rparr> else s)"
  define s2 where "s2 = (if Timeout s1 = 0 then s1\<lparr>Timeout := 4 * 1000000000\<rparr> else s1)"
  have len: "length ?d \<le> 516" using assms(4) by (simp add: put_u16_def str_def)
  have b: "B = put_u16 OpWRQ @ (name @ [0] @ str ''octet'' @ [0] @ replicate (516 - length ?d) 0)"
    unfolding B_def using conn_Read_fresh [OF len] by (simp add: DatagramSize_def)
  obtain q' where q: "ReadReq_UnmarshalBinary \<lparr>RRQ_Filename = [], RRQ_Mode = []\<rparr> B =
      (Some (InvalidRRQ OpWRQ), q')"
    unfolding b using ReadReq_rejects_WRQ by (metis prod.collapse)
  have w: "WriteReq_UnmarshalBinary \<lparr>WRQ_Filename = [], WRQ_Mode = []\<rparr> B =
      (None, \<lparr>WRQ_Filename = name, WRQ_Mode = str ''octet''\<rparr>)"
    unfolding b using WriteReq_layout_padded [OF assms(3)] by simp
  have wa: "WriteAllowed s2 = False"
    using assms(1) by (simp add: s1_def s2_def)
  have step: "serve_loop s2 \<lparr>RRQ_Filename = [], RRQ_Mode = []\<rparr>
        \<lparr>WRQ_Filename = [], WRQ_Mode = []\<rparr> [Arrives addr ?d] =
      ([WriteTo (put_u16 OpErr @ put_u16 ErrIllegalOp @
                      str ''We don't accept write requests'' @ [0]) addr,
        GoHandleWrite s2 addr \<lparr>WRQ_Filename = name, WRQ_Mode = str ''octet''\<rparr>],
       None)"
    unfolding serve_loop.simps B_def [symmetric]
    using q w wa by (simp add: Let_def prepend_def marshalled_def Err_MarshalBinary_def)
  have "Serve s (Some [Arrives addr ?d]) =
      serve_loop s2 \<lparr>RRQ_Filename = [], RRQ_Mode = []\<rparr>
        \<lparr>WRQ_Filename = [], WRQ_Mode = []\<rparr> [Arrives addr ?d]"
  proof -
    from assms(2) obtain p where "Payload s = Some p" by auto
    then show ?thesis
      by (simp add: Serve_def s1_def s2_def Let_def del: serve_loop.simps)
  qed
  with step wa show ?thesis using handleWrite_first_ack by metis
qed

text \<open>
  Claim C3. The claim says that a write request arriving while write support is disabled
  is answered with an Error packet (code \<open>ErrIllegalOp\<close>) on the listening socket and that
  the Ack with block number 0 is never sent. The code sends the Error packet, but for a
  write request for \<open>y.bin\<close> at a server with \<open>WriteAllowed\<close> false the upload session it
  starts after the rejection sends the Ack with block number 0 and creates \<open>y.bin\<close>: the
  request that the server has just refused ("We don't accept write requests") is
  accepted, against the comment on \<open>WriteAllowed\<close> ("Whether to accept WriteRequest or
  not").
\<close>

theorem write_disabled_session_sends_Ack0:
  "Serve \<lparr>WriteAllowed = False, WriteDir = [], Payload = Some [], Retries = 10, Timeout = 4000000000\<rparr>
       (Some [Arrives ''client'' ([0, 2] @ str ''y.bin'' @ [0] @ str ''octet'' @ [0])]) =
     ([WriteTo ([0, 5, 0, 4] @ str ''We don't accept write requests'' @ [0]) ''client'',
       GoHandleWrite
         \<lparr>WriteAllowed = False, WriteDir = [], Payload = Some [], Retries = 10, Timeout = 4000000000\<rparr>
         ''client'' \<lparr>WRQ_Filename = str ''y.bin'', WRQ_Mode = str ''octet''\<rparr>],
      None) \<and>
   handleWrite
       \<lparr>WriteAllowed = False, WriteDir = [], Payload = Some [], Retries = 10, Timeout = 4000000000\<rparr>
       ''client'' \<lparr>WRQ_Filename = str ''y.bin'', WRQ_Mode = str ''octet''\<rparr>
       \<lparr>dial_ok = True, ack_ok = True, create_ok = True, arrivals = []\<rparr> =
     ([Sent [0, 4, 0, 0], Created (str ''y.bin'')], AwaitingData)"
  by code_simp

end
